theory Spec2Isabelle
  imports Main
begin

section \<open>Values of the API client\<close>

text \<open>
  The client of \<^verbatim>\<open>src/unnamed/part_000\<close> (class \<^verbatim>\<open>RawfinAPI\<close> and its sub-clients)
  talks to three things outside itself: \<^verbatim>\<open>fetch\<close>, \<^verbatim>\<open>localStorage\<close> and the page
  (\<^verbatim>\<open>console\<close>, \<^verbatim>\<open>window.location\<close>, timers). The model passes a state \<open>world\<close>
  through every operation; what \<^verbatim>\<open>fetch\<close> answers is an oracle \<open>net\<close> that gives the
  outcome of the i-th call of \<^verbatim>\<open>fetch\<close>. An \<^verbatim>\<open>await\<close> is sequential composition: between
  the suspension of an operation and its resumption no other task touches the state.
\<close>

text \<open>A parsed JSON value, as \<^verbatim>\<open>response.json()\<close> delivers it. Numbers are integers here.\<close>

datatype json =
    JNull
  | JBool bool
  | JNum int
  | JStr string
  | JArr "json list"
  | JObj "(string \<times> json) list"

text \<open>JavaScript's ToBoolean, on a JSON value, on a string and on a string or \<^verbatim>\<open>null\<close>.\<close>

fun truthy :: "json \<Rightarrow> bool" where
  "truthy JNull = False"
| "truthy (JBool b) = b"
| "truthy (JNum n) = (n \<noteq> 0)"
| "truthy (JStr s) = (s \<noteq> [])"
| "truthy (JArr xs) = True"
| "truthy (JObj kvs) = True"

fun truthy_str :: "string option \<Rightarrow> bool" where
  "truthy_str None = False"
| "truthy_str (Some s) = (s \<noteq> [])"

text \<open>
  Whatever a \<^verbatim>\<open>throw\<close> or a rejected promise carries: an instance of the class
  \<^verbatim>\<open>APIError\<close> (message, status, data), or any other error object, of which the code
  reads the \<^verbatim>\<open>name\<close> only (the second field is its message).
\<close>

datatype failure =
    APIError string nat json
  | Thrown string string

text \<open>The constructor of \<^verbatim>\<open>APIError\<close>: \<^verbatim>\<open>data = {}\<close> when the argument is left out.\<close>

definition new_APIError :: "string \<Rightarrow> nat \<Rightarrow> json option \<Rightarrow> failure" where
  "new_APIError message status data =
     APIError message status (case data of None \<Rightarrow> JObj [] | Some d \<Rightarrow> d)"

text \<open>\<^verbatim>\<open>error.name\<close>: the constructor of \<^verbatim>\<open>APIError\<close> sets it to the class name.\<close>

fun error_name :: "failure \<Rightarrow> string" where
  "error_name (APIError message status data) = ''APIError''"
| "error_name (Thrown name message) = name"

text \<open>\<^verbatim>\<open>error instanceof APIError\<close>.\<close>

fun instanceof_APIError :: "failure \<Rightarrow> bool" where
  "instanceof_APIError (APIError message status data) = True"
| "instanceof_APIError (Thrown name message) = False"

text \<open>
  Template literals turn a number into its text. \<open>decimal\<close> prints a natural number
  digit by digit, and \<open>number_to_string\<close> an integer with its sign. This is what
  JavaScript's Number-to-string gives for an integer of magnitude at most \<open>2^53\<close>: up to
  there every integer is a double of its own and all its digits are printed. Beyond it
  JavaScript prints the shortest digits that identify the double, which is another text;
  \<open>number_to_string\<close> is used below that bound only (status codes, attempt counters, and
  the limits that \<open>representable\<close> admits).
\<close>

definition digit :: "nat \<Rightarrow> char" where
  "digit d = ''0123456789'' ! d"

fun decimal :: "nat \<Rightarrow> string" where
  "decimal n = (if 10 \<le> n then decimal (n div 10) @ [digit (n mod 10)] else [digit n])"

definition number_to_string :: "int \<Rightarrow> string" where
  "number_to_string i = (if 0 \<le> i then decimal (nat i) else CHR ''-'' # decimal (nat (- i)))"

text \<open>
  Reading a decimal numeral, written independently of the printer: digits only, no leading
  zero, a minus sign for a negative number and none for zero. It says which integer a text
  denotes, and so which text a template literal has to produce for a given integer.
\<close>

fun position :: "char \<Rightarrow> string \<Rightarrow> nat \<Rightarrow> nat option" where
  "position c [] i = None"
| "position c (d # ds) i = (if c = d then Some i else position c ds (Suc i))"

definition digit_value :: "char \<Rightarrow> nat option" where
  "digit_value c = position c ''0123456789'' 0"

fun read_digits :: "nat \<Rightarrow> string \<Rightarrow> nat option" where
  "read_digits acc [] = Some acc"
| "read_digits acc (c # cs) =
     (case digit_value c of None \<Rightarrow> None | Some d \<Rightarrow> read_digits (10 * acc + d) cs)"

definition read_nat :: "string \<Rightarrow> nat option" where
  "read_nat s =
     (case s of
        [] \<Rightarrow> None
      | c # cs \<Rightarrow> if c = CHR ''0'' \<and> cs \<noteq> [] then None else read_digits 0 s)"

definition read_number :: "string \<Rightarrow> int option" where
  "read_number s =
     (case s of
        [] \<Rightarrow> None
      | c # cs \<Rightarrow>
          if c = CHR ''-'' then
            (case read_nat cs of
               None \<Rightarrow> None
             | Some m \<Rightarrow> if m = 0 then None else Some (- int m))
          else map_option int (read_nat s))"

text \<open>
  A value passed where the code expects a number: \<^verbatim>\<open>undefined\<close> (also an argument left
  out); a number that is an integer; or any other value (a number with a fraction or
  beyond \<open>2^53\<close>, a string, \<^verbatim>\<open>null\<close>, ...), given by the text that a template literal
  prints for it, which is the engine's conversion and no code of this repository.
\<close>

datatype js_value = Undefined | Num int | Other string

fun template_text :: "js_value \<Rightarrow> string" where
  "template_text Undefined = ''undefined''"
| "template_text (Num n) = number_to_string n"
| "template_text (Other s) = s"

text \<open>The values on which \<open>template_text\<close> is the text JavaScript prints.\<close>

fun representable :: "js_value \<Rightarrow> bool" where
  "representable (Num n) = (\<bar>n\<bar> \<le> 2 ^ 53)"
| "representable v = True"

text \<open>\<^verbatim>\<open>String.prototype.includes\<close>.\<close>

fun starts_with :: "string \<Rightarrow> string \<Rightarrow> bool" where
  "starts_with s [] = True"
| "starts_with [] (c # cs) = False"
| "starts_with (d # ds) (c # cs) = (d = c \<and> starts_with ds cs)"

fun str_includes :: "string \<Rightarrow> string \<Rightarrow> bool" where
  "str_includes [] sub = starts_with [] sub"
| "str_includes (d # ds) sub = (starts_with (d # ds) sub \<or> str_includes ds sub)"

section \<open>Objects passed to and from the client\<close>

text \<open>
  A property of a JavaScript object: the key is missing (\<open>Absent\<close>), it is there with
  the value \<^verbatim>\<open>undefined\<close> or \<^verbatim>\<open>null\<close> (\<open>Nullish\<close>), or it holds a value. The difference
  matters to object spread, which copies every own key, also one that holds \<^verbatim>\<open>undefined\<close>.
\<close>

datatype 'a slot = Absent | Nullish | Val 'a

text \<open>
  A plain object of headers is a list of pairs in insertion order with distinct keys;
  \<open>obj_set\<close> is the assignment \<^verbatim>\<open>obj[k] = v\<close>, \<open>obj_get\<close> the read \<^verbatim>\<open>obj[k]\<close>.
\<close>

type_synonym headers = "(string \<times> string) list"

fun obj_set :: "string \<Rightarrow> string \<Rightarrow> headers \<Rightarrow> headers" where
  "obj_set k v [] = [(k, v)]"
| "obj_set k v ((k', v') # kvs) = (if k' = k then (k, v) # kvs else (k', v') # obj_set k v kvs)"

definition obj_get :: "headers \<Rightarrow> string \<Rightarrow> string option" where
  "obj_get h k = map_of h k"

text \<open>\<^verbatim>\<open>{...target, ...source}\<close> for a source that may be \<^verbatim>\<open>undefined\<close>.\<close>

definition obj_spread :: "headers \<Rightarrow> headers slot \<Rightarrow> headers" where
  "obj_spread target source =
     (case source of Val h \<Rightarrow> fold (\<lambda>(k, v). obj_set k v) h target | _ \<Rightarrow> target)"

text \<open>One key under \<^verbatim>\<open>{k: cur, ...options}\<close>: the key of \<^verbatim>\<open>options\<close> wins when it is there.\<close>

definition spread_prop :: "'a slot \<Rightarrow> 'a slot \<Rightarrow> 'a slot" where
  "spread_prop cur new = (case new of Absent \<Rightarrow> cur | _ \<Rightarrow> new)"

text \<open>
  The \<^verbatim>\<open>options\<close> argument of \<^verbatim>\<open>request\<close> and the \<^verbatim>\<open>config\<close> object handed to
  \<^verbatim>\<open>fetch\<close> have the same three keys. (\<^verbatim>\<open>config.signal\<close> is the abort timer of the
  state below.)
\<close>

record request_init =
  r_method :: "string slot"
  r_headers :: "headers slot"
  r_body :: "string slot"

definition no_options :: request_init where
  "no_options = \<lparr>r_method = Absent, r_headers = Absent, r_body = Absent\<rparr>"

text \<open>A response: \<^verbatim>\<open>response.status\<close> and what \<^verbatim>\<open>response.json()\<close> settles to.\<close>

record response =
  status :: nat
  json_body :: "failure + json"

definition ok :: "response \<Rightarrow> bool" where
  "ok r = (200 \<le> status r \<and> status r \<le> 299)"

datatype fetch_outcome = Resolved response | Rejected failure

text \<open>What the client does to the page, in order.\<close>

datatype event =
    Fetch string request_init
  | ConsoleError string failure
  | ConsoleErrorText string string
  | ConsoleLog string
  | Delay nat
  | Navigate string
  | Notify string string
  | NavigateAfter nat string

text \<open>
  The state: the two slots of \<^verbatim>\<open>localStorage\<close> (\<^verbatim>\<open>rawfin_auth_token\<close>, and
  \<^verbatim>\<open>rawfin_user_data\<close>, whose JSON text is kept as the value it denotes), the pending
  timers (id and milliseconds) and the next timer id, the number of calls of \<^verbatim>\<open>fetch\<close> so far, and the events.
\<close>

record world =
  auth_token :: "string option"
  user_data :: "json option"
  timers :: "(nat \<times> nat) list"
  next_timer :: nat
  fetches :: nat
  trace :: "event list"

definition emit :: "event \<Rightarrow> world \<Rightarrow> world" where
  "emit e st = st\<lparr>trace := trace st @ [e]\<rparr>"

definition setTimeout :: "nat \<Rightarrow> world \<Rightarrow> nat \<times> world" where
  "setTimeout ms st =
     (next_timer st, st\<lparr>timers := (next_timer st, ms) # timers st, next_timer := Suc (next_timer st)\<rparr>)"

definition clearTimeout :: "nat \<Rightarrow> world \<Rightarrow> world" where
  "clearTimeout tid st = st\<lparr>timers := filter (\<lambda>(i, ms). i \<noteq> tid) (timers st)\<rparr>"

section \<open>RawfinAPI\<close>

record client =
  baseURL :: string
  timeout :: nat
  retryAttempts :: nat
  retryDelay :: nat

text \<open>The constructor of \<^verbatim>\<open>RawfinAPI\<close>.\<close>

definition RawfinAPI :: client where
  "RawfinAPI = \<lparr>baseURL = ''https://rawfin.tv/api'', timeout = 10000, retryAttempts = 3, retryDelay = 1000\<rparr>"

definition getAuthToken :: "world \<Rightarrow> string option" where
  "getAuthToken st = auth_token st"

definition setAuthToken :: "string option \<Rightarrow> world \<Rightarrow> world" where
  "setAuthToken token st =
     (if truthy_str token then st\<lparr>auth_token := token\<rparr> else st\<lparr>auth_token := None\<rparr>)"

definition getUserData :: "world \<Rightarrow> json" where
  "getUserData st = (case user_data st of None \<Rightarrow> JNull | Some d \<Rightarrow> d)"

definition setUserData :: "json \<Rightarrow> world \<Rightarrow> world" where
  "setUserData data st =
     (if truthy data then st\<lparr>user_data := Some data\<rparr> else st\<lparr>user_data := None\<rparr>)"

text \<open>
  The object literal that opens \<^verbatim>\<open>request\<close>: the default method, the default header
  spread with \<^verbatim>\<open>options.headers\<close>, and then \<^verbatim>\<open>...options\<close> over all of it.
\<close>

definition request_config :: "request_init \<Rightarrow> request_init" where
  "request_config options =
     \<lparr>r_method = spread_prop
         (Val (case r_method options of Val m \<Rightarrow> (if m \<noteq> [] then m else ''GET'') | _ \<Rightarrow> ''GET''))
         (r_method options),
      r_headers = spread_prop
         (Val (obj_spread [(''Content-Type'', ''application/json'')] (r_headers options)))
         (r_headers options),
      r_body = spread_prop Absent (r_body options)\<rparr>"

text \<open>
  \<^verbatim>\<open>if (token) config.headers['Authorization'] = `Bearer ${token}`\<close>. Writing a property
  of \<^verbatim>\<open>undefined\<close> or \<^verbatim>\<open>null\<close> throws a TypeError (its message depends on the engine and
  is left empty).
\<close>

definition add_auth :: "string option \<Rightarrow> request_init \<Rightarrow> failure + request_init" where
  "add_auth token config =
     (if truthy_str token then
        (case r_headers config of
           Val h \<Rightarrow> Inr (config\<lparr>r_headers := Val (obj_set ''Authorization'' (''Bearer '' @ the token) h)\<rparr>)
         | _ \<Rightarrow> Inl (Thrown ''TypeError'' ''''))
      else Inr config)"

text \<open>
  When \<^verbatim>\<open>options.headers\<close> is an object, \<^verbatim>\<open>config.headers\<close> is that same object, so the
  assignment above writes into the caller's \<^verbatim>\<open>options\<close>: this is \<^verbatim>\<open>options\<close> after the call.
\<close>

definition options_after :: "world \<Rightarrow> request_init \<Rightarrow> request_init" where
  "options_after st options =
     (if truthy_str (getAuthToken st) then
        (case r_headers options of
           Val h \<Rightarrow> options\<lparr>r_headers := Val (obj_set ''Authorization'' (''Bearer '' @ the (getAuthToken st)) h)\<rparr>
         | _ \<Rightarrow> options)
      else options)"

text \<open>The \<^verbatim>\<open>catch\<close> block of \<^verbatim>\<open>request\<close>.\<close>

definition request_catch :: "nat \<Rightarrow> failure \<Rightarrow> world \<Rightarrow> (failure + json) \<times> world" where
  "request_catch timeoutId error st =
     (let st1 = clearTimeout timeoutId st in
      if error_name error = ''AbortError'' then (Inl (new_APIError ''Request timeout'' 408 None), st1)
      else (Inl error, emit (ConsoleError ''API Request Failed:'' error) st1))"

text \<open>The \<^verbatim>\<open>try\<close> block of \<^verbatim>\<open>request\<close>, from the point where \<^verbatim>\<open>fetch\<close> has settled.\<close>

definition request_try :: "nat \<Rightarrow> fetch_outcome \<Rightarrow> world \<Rightarrow> (failure + json) \<times> world" where
  "request_try timeoutId outcome st =
     (case outcome of
        Rejected error \<Rightarrow> request_catch timeoutId error st
      | Resolved response \<Rightarrow>
          (let st1 = clearTimeout timeoutId st in
           if \<not> ok response then
             request_catch timeoutId
               (new_APIError (''API Error: '' @ decimal (status response)) (status response)
                  (Some (case json_body response of Inl e \<Rightarrow> JObj [] | Inr d \<Rightarrow> d)))
               st1
           else
             (case json_body response of
                Inr d \<Rightarrow> (Inr d, st1)
              | Inl e \<Rightarrow> request_catch timeoutId e st1)))"

definition request ::
  "(nat \<Rightarrow> fetch_outcome) \<Rightarrow> client \<Rightarrow> string \<Rightarrow> request_init \<Rightarrow> world \<Rightarrow> (failure + json) \<times> world" where
  "request net api endpoint options st =
     (case add_auth (getAuthToken st) (request_config options) of
        Inl e \<Rightarrow> (Inl e, st)
      | Inr config \<Rightarrow>
          (let (timeoutId, st1) = setTimeout (timeout api) st;
               st2 = emit (Fetch (baseURL api @ endpoint) config) (st1\<lparr>fetches := Suc (fetches st1)\<rparr>)
           in request_try timeoutId (net (fetches st)) st2))"

definition shouldRetry :: "failure \<Rightarrow> bool" where
  "shouldRetry error =
     (if instanceof_APIError error then
        (case error of APIError message code data \<Rightarrow> code \<ge> 500 \<or> code = 429 | _ \<Rightarrow> False)
      else False)"

text \<open>\<^verbatim>\<open>delay(ms)\<close>: a timer that resolves the promise; awaited, it is gone again.\<close>

definition delay :: "nat \<Rightarrow> world \<Rightarrow> world" where
  "delay ms st = emit (Delay ms) (st\<lparr>next_timer := Suc (next_timer st)\<rparr>)"

function requestWithRetry ::
  "(nat \<Rightarrow> fetch_outcome) \<Rightarrow> client \<Rightarrow> string \<Rightarrow> request_init \<Rightarrow> nat \<Rightarrow> world \<Rightarrow> (failure + json) \<times> world" where
  "requestWithRetry net api endpoint options attempt st =
     (case request net api endpoint options st of
        (Inr v, st1) \<Rightarrow> (Inr v, st1)
      | (Inl error, st1) \<Rightarrow>
          (if attempt < retryAttempts api \<and> shouldRetry error then
             requestWithRetry net api endpoint (options_after st options) (attempt + 1)
               (delay (retryDelay api * attempt)
                  (emit (ConsoleLog (''Retrying request (attempt '' @ decimal (attempt + 1) @ '')...'')) st1))
           else (Inl error, st1)))"
  by pat_completeness auto
termination
  by (relation "measure (\<lambda>(net, api, endpoint, options, attempt, st). retryAttempts api - attempt)") auto

section \<open>Sub-clients\<close>

text \<open>
  \<^verbatim>\<open>EpisodesAPI.getRecent(limit = 6)\<close>: the default stands in for \<^verbatim>\<open>undefined\<close>, and the
  template literal prints the limit into the path.
\<close>

definition getRecent ::
  "(nat \<Rightarrow> fetch_outcome) \<Rightarrow> client \<Rightarrow> js_value \<Rightarrow> world \<Rightarrow> (failure + json) \<times> world" where
  "getRecent net api limit st =
     request net api
       (''/episodes/recent?limit='' @ template_text (case limit of Undefined \<Rightarrow> Num 6 | v \<Rightarrow> v))
       no_options st"

text \<open>
  \<^verbatim>\<open>AuthAPI.logout\<close>. The result \<open>Inr None\<close> is the promise fulfilled with
  \<^verbatim>\<open>undefined\<close>, after the \<^verbatim>\<open>catch\<close> block has swallowed the failure.
\<close>

definition logout ::
  "(nat \<Rightarrow> fetch_outcome) \<Rightarrow> client \<Rightarrow> world \<Rightarrow> (failure + json option) \<times> world" where
  "logout net api st =
     (let st1 = setAuthToken None st;
          st2 = setUserData JNull st1
      in case request net api ''/auth/logout'' (no_options\<lparr>r_method := Val ''POST''\<rparr>) st2 of
           (Inr v, st3) \<Rightarrow> (Inr (Some v), st3)
         | (Inl error, st3) \<Rightarrow> (Inr None, emit (ConsoleError ''Logout API error:'' error) st3))"

text \<open>
  \<^verbatim>\<open>AuthAPI.getProfile\<close>. Its \<^verbatim>\<open>catch\<close> block calls \<^verbatim>\<open>this.logout()\<close> without awaiting
  it: the call clears both slots and issues its request before \<^verbatim>\<open>throw error\<close> runs, and
  the rest of it runs later. The model runs it to its end at once; the result of the
  un-awaited call is dropped.
\<close>

definition getProfile ::
  "(nat \<Rightarrow> fetch_outcome) \<Rightarrow> client \<Rightarrow> world \<Rightarrow> (failure + json) \<times> world" where
  "getProfile net api st =
     (case request net api ''/auth/profile'' no_options st of
        (Inr data, st1) \<Rightarrow> (Inr data, setUserData data st1)
      | (Inl error, st1) \<Rightarrow> (Inl error, snd (logout net api st1)))"

definition isAuthenticated :: "world \<Rightarrow> bool" where
  "isAuthenticated st = truthy_str (getAuthToken st)"

section \<open>The OAuth callback check at page load\<close>

text \<open>
  \<^verbatim>\<open>new URLSearchParams(window.location.search)\<close> is the list of decoded pairs of the
  query; \<^verbatim>\<open>get\<close> gives the first value of a name, or \<^verbatim>\<open>null\<close>.
\<close>

definition params_get :: "(string \<times> string) list \<Rightarrow> string \<Rightarrow> string option" where
  "params_get params name = map_of params name"

text \<open>
  The top-level \<^verbatim>\<open>if\<close> of the module. The promise of \<^verbatim>\<open>getProfile()\<close> has a
  \<^verbatim>\<open>then\<close> and no \<^verbatim>\<open>catch\<close>: when it rejects nothing more happens here.
\<close>

definition oauth_callback ::
  "(nat \<Rightarrow> fetch_outcome) \<Rightarrow> client \<Rightarrow> string \<Rightarrow> (string \<times> string) list \<Rightarrow> world \<Rightarrow> world" where
  "oauth_callback net api pathname params st =
     (if str_includes pathname ''/auth/callback'' then
        (let token = params_get params ''token'';
             error = params_get params ''error''
         in if truthy_str token then
              (case getProfile net api (setAuthToken token st) of
                 (Inr data, st1) \<Rightarrow> emit (Navigate ''/'') st1
               | (Inl e, st1) \<Rightarrow> st1)
            else if truthy_str error then
              emit (NavigateAfter 3000 ''/'')
                (emit (Notify ''Authentication failed. Please try again.'' ''error'')
                   (emit (ConsoleErrorText ''Auth error:'' (the error)) st))
            else st)
      else st)"

section \<open>Observing a run\<close>

text \<open>The events a run from \<open>st\<close> to \<open>st'\<close> has added.\<close>

definition new_events :: "world \<Rightarrow> world \<Rightarrow> event list" where
  "new_events st st' = drop (length (trace st)) (trace st')"

text \<open>The backoff delays among some events, in order, and the calls of \<^verbatim>\<open>fetch\<close>.\<close>

fun delay_of :: "event \<Rightarrow> nat list" where
  "delay_of (Delay ms) = [ms]"
| "delay_of ev = []"

definition delays :: "event list \<Rightarrow> nat list" where
  "delays evs = concat (map delay_of evs)"

fun is_fetch :: "event \<Rightarrow> bool" where
  "is_fetch (Fetch url config) = True"
| "is_fetch ev = False"

definition fetch_events :: "event list \<Rightarrow> event list" where
  "fetch_events evs = filter is_fetch evs"



text \<open>What the page sees of an event: a navigation or a notification.\<close>

fun is_page_action :: "event \<Rightarrow> bool" where
  "is_page_action (Navigate url) = True"
| "is_page_action (Notify message kind) = True"
| "is_page_action (NavigateAfter ms url) = True"
| "is_page_action ev = False"

text \<open>The value of one header of a \<^verbatim>\<open>config\<close> (or of an \<^verbatim>\<open>options\<close>) object.\<close>

definition header :: "request_init \<Rightarrow> string \<Rightarrow> string option" where
  "header config k = (case r_headers config of Val h \<Rightarrow> obj_get h k | _ \<Rightarrow> None)"

text \<open>\<^verbatim>\<open>request\<close> reaches its call of \<^verbatim>\<open>fetch\<close>: building \<^verbatim>\<open>config\<close> did not throw.\<close>

definition issues_fetch :: "request_init \<Rightarrow> world \<Rightarrow> bool" where
  "issues_fetch options st =
     (case add_auth (getAuthToken st) (request_config options) of Inl e \<Rightarrow> False | Inr config \<Rightarrow> True)"


text \<open>Concrete surroundings for running the model: a backend, a response, a fresh page.\<close>

definition scripted :: "fetch_outcome list \<Rightarrow> fetch_outcome \<Rightarrow> nat \<Rightarrow> fetch_outcome" where
  "scripted outs rest i = (if i < length outs then outs ! i else rest)"

definition respond :: "nat \<Rightarrow> json \<Rightarrow> fetch_outcome" where
  "respond code payload = Resolved \<lparr>status = code, json_body = Inr payload\<rparr>"

definition fresh :: world where
  "fresh = \<lparr>auth_token = None, user_data = None, timers = [], next_timer = 0, fetches = 0, trace = []\<rparr>"

text \<open>A page whose storage holds a token.\<close>

definition signed_in :: "string \<Rightarrow> world" where
  "signed_in token = fresh\<lparr>auth_token := Some token\<rparr>"

section \<open>Facts about the request primitive\<close>

declare decimal.simps [simp del]
declare requestWithRetry.simps [simp del]

lemma issues_fetch_iff:
  "issues_fetch options st = (\<not> (truthy_str (getAuthToken st) \<and> r_headers options = Nullish))"
  by (cases "r_headers options")
     (simp_all add: issues_fetch_def add_auth_def request_config_def spread_prop_def)

lemma request_not_issued:
  "\<not> issues_fetch options st \<Longrightarrow> request net api endpoint options st = (Inl (Thrown ''TypeError'' ''''), st)"
  by (cases "r_headers options")
     (auto simp: issues_fetch_def request_def add_auth_def request_config_def spread_prop_def
        split: sum.splits if_splits)

lemma request_catch_facts:
  "auth_token (snd (request_catch tid e st)) = auth_token st"
  "user_data (snd (request_catch tid e st)) = user_data st"
  "fetches (snd (request_catch tid e st)) = fetches st"
  "next_timer (snd (request_catch tid e st)) = next_timer st"
  "timers (snd (request_catch tid e st)) = filter (\<lambda>(i, ms). i \<noteq> tid) (timers st)"
  by (simp_all add: request_catch_def clearTimeout_def emit_def Let_def)

lemma request_try_facts:
  "auth_token (snd (request_try tid out st)) = auth_token st"
  "user_data (snd (request_try tid out st)) = user_data st"
  "fetches (snd (request_try tid out st)) = fetches st"
  "next_timer (snd (request_try tid out st)) = next_timer st"
  "timers (snd (request_try tid out st)) = filter (\<lambda>(i, ms). i \<noteq> tid) (timers st)"
  by (simp_all add: request_try_def request_catch_facts clearTimeout_def Let_def
        split: fetch_outcome.splits sum.splits)

lemma request_facts:
  "auth_token (snd (request net api endpoint options st)) = auth_token st"
  "user_data (snd (request net api endpoint options st)) = user_data st"
  "fetches (snd (request net api endpoint options st)) = (if issues_fetch options st then Suc (fetches st) else fetches st)"
  by (simp_all add: request_def issues_fetch_def request_try_facts setTimeout_def emit_def
        split: sum.splits)

lemma delays_simps:
  "delays [] = []" "delays (ev # evs) = delay_of ev @ delays evs"
  by (simp_all add: delays_def)

lemma fetch_events_simps:
  "fetch_events [] = []"
  "fetch_events (ev # evs) = (if is_fetch ev then ev # fetch_events evs else fetch_events evs)"
  by (simp_all add: fetch_events_def)

lemma delays_append: "delays (xs @ ys) = delays xs @ delays ys"
  by (simp add: delays_def)

lemma fetch_events_append: "fetch_events (xs @ ys) = fetch_events xs @ fetch_events ys"
  by (simp add: fetch_events_def)





lemma request_catch_trace:
  "\<exists>evs. trace (snd (request_catch tid e st)) = trace st @ evs \<and> delays evs = [] \<and>
         fetch_events evs = [] \<and> (\<forall>ev\<in>set evs. \<not> is_page_action ev)"
  by (simp add: request_catch_def clearTimeout_def emit_def Let_def delays_def fetch_events_def)

lemma request_try_trace:
  "\<exists>evs. trace (snd (request_try tid out st)) = trace st @ evs \<and> delays evs = [] \<and>
         fetch_events evs = [] \<and> (\<forall>ev\<in>set evs. \<not> is_page_action ev)"
proof (cases out)
  case (Rejected e)
  then show ?thesis using request_catch_trace [of tid e st] by (simp add: request_try_def)
next
  case (Resolved r)
  show ?thesis
  proof (cases "ok r")
    case False
    then show ?thesis
      using Resolved request_catch_trace [of tid _ "clearTimeout tid st"]
      by (simp add: request_try_def Let_def clearTimeout_def)
  next
    case True
    then show ?thesis
      using Resolved request_catch_trace [of tid _ "clearTimeout tid st"]
      by (cases "json_body r") (simp_all add: request_try_def Let_def clearTimeout_def delays_def fetch_events_def)
  qed
qed

lemma request_issued:
  assumes "issues_fetch options st"
  shows "\<exists>config. add_auth (getAuthToken st) (request_config options) = Inr config \<and>
           request net api endpoint options st =
             request_try (next_timer st) (net (fetches st))
               (emit (Fetch (baseURL api @ endpoint) config)
                  (st\<lparr>timers := (next_timer st, timeout api) # timers st, next_timer := Suc (next_timer st),
                      fetches := Suc (fetches st)\<rparr>))"
  using assms
  by (auto simp: issues_fetch_def request_def setTimeout_def split: sum.splits)

lemma request_trace:
  assumes "issues_fetch options st"
  shows "\<exists>config evs. add_auth (getAuthToken st) (request_config options) = Inr config \<and>
           trace (snd (request net api endpoint options st)) =
             trace st @ Fetch (baseURL api @ endpoint) config # evs \<and>
           delays evs = [] \<and> fetch_events evs = [] \<and> (\<forall>ev\<in>set evs. \<not> is_page_action ev)"
proof -
  from request_issued [OF assms, of net api endpoint] obtain config where
    c: "add_auth (getAuthToken st) (request_config options) = Inr config" and
    r: "request net api endpoint options st =
             request_try (next_timer st) (net (fetches st))
               (emit (Fetch (baseURL api @ endpoint) config)
                  (st\<lparr>timers := (next_timer st, timeout api) # timers st, next_timer := Suc (next_timer st),
                      fetches := Suc (fetches st)\<rparr>))" by blast
  from request_try_trace obtain evs where
    "trace (snd (request_try (next_timer st) (net (fetches st))
               (emit (Fetch (baseURL api @ endpoint) config)
                  (st\<lparr>timers := (next_timer st, timeout api) # timers st, next_timer := Suc (next_timer st),
                      fetches := Suc (fetches st)\<rparr>)))) =
       trace (emit (Fetch (baseURL api @ endpoint) config)
                  (st\<lparr>timers := (next_timer st, timeout api) # timers st, next_timer := Suc (next_timer st),
                      fetches := Suc (fetches st)\<rparr>)) @ evs"
    "delays evs = []" "fetch_events evs = []" "\<forall>ev\<in>set evs. \<not> is_page_action ev"
    by blast
  with c r show ?thesis by (simp add: emit_def)
qed


lemma shouldRetry_issued:
  assumes "fst (request net api endpoint options st) = Inl e" "shouldRetry e"
  shows "issues_fetch options st"
proof (rule ccontr)
  assume "\<not> issues_fetch options st"
  then have "e = Thrown ''TypeError'' ''''" using assms(1) by (simp add: request_not_issued)
  with assms(2) show False by (simp add: shouldRetry_def)
qed


section \<open>Facts about the retry loop\<close>

lemma requestWithRetry_stop:
  assumes "request net api endpoint options st = (res, st1)"
    and "\<And>e. res = Inl e \<Longrightarrow> \<not> (attempt < retryAttempts api \<and> shouldRetry e)"
  shows "requestWithRetry net api endpoint options attempt st = (res, st1)"
proof (cases res)
  case (Inl e)
  with assms show ?thesis by (subst requestWithRetry.simps) auto
next
  case (Inr v)
  with assms show ?thesis by (subst requestWithRetry.simps) auto
qed





lemma map_of_obj_set: "map_of (obj_set k v h) k' = (if k' = k then Some v else map_of h k')"
  by (induction h) auto

lemma obj_get_obj_set: "obj_get (obj_set k v h) k' = (if k' = k then Some v else obj_get h k')"
  by (simp add: obj_get_def map_of_obj_set)

lemma not_fetch_member: "fetch_events evs = [] \<Longrightarrow> ev \<in> set evs \<Longrightarrow> \<not> is_fetch ev"
  by (auto simp: fetch_events_def filter_empty_conv)

lemma request_new_events:
  assumes "issues_fetch options st"
  shows "\<exists>config evs. add_auth (getAuthToken st) (request_config options) = Inr config \<and>
           new_events st (snd (request net api endpoint options st)) =
             Fetch (baseURL api @ endpoint) config # evs \<and>
           delays evs = [] \<and> fetch_events evs = [] \<and> (\<forall>ev\<in>set evs. \<not> is_page_action ev)"
proof -
  from request_trace [OF assms, of net api endpoint] obtain config evs where
    "add_auth (getAuthToken st) (request_config options) = Inr config"
    "trace (snd (request net api endpoint options st)) = trace st @ Fetch (baseURL api @ endpoint) config # evs"
    "delays evs = []" "fetch_events evs = []" "\<forall>ev\<in>set evs. \<not> is_page_action ev"
    by blast
  then show ?thesis by (auto simp: new_events_def)
qed

lemma request_no_new_events:
  "\<not> issues_fetch options st \<Longrightarrow> new_events st (snd (request net api endpoint options st)) = []"
  by (simp add: request_not_issued new_events_def)

lemma header_add_auth:
  assumes "add_auth token (request_config options) = Inr config"
  shows "header config ''Authorization'' =
           (if truthy_str token then Some (''Bearer '' @ the token) else header options ''Authorization'')"
    and "r_method config = r_method (request_config options)"
proof -
  show "header config ''Authorization'' =
           (if truthy_str token then Some (''Bearer '' @ the token) else header options ''Authorization'')"
    using assms
    by (cases "r_headers options")
       (auto simp: add_auth_def request_config_def spread_prop_def obj_spread_def header_def
          map_of_obj_set obj_get_def split: if_splits)
  show "r_method config = r_method (request_config options)"
    using assms by (auto simp: add_auth_def split: if_splits slot.splits)
qed

lemma request_ok:
  assumes "issues_fetch options st" "net (fetches st) = Resolved r" "ok r" "json_body r = Inr d"
  shows "\<exists>config. add_auth (getAuthToken st) (request_config options) = Inr config \<and>
           fst (request net api endpoint options st) = Inr d \<and>
           trace (snd (request net api endpoint options st)) = trace st @ [Fetch (baseURL api @ endpoint) config]"
proof -
  from request_issued [OF assms(1), of net api endpoint] obtain config where
    c: "add_auth (getAuthToken st) (request_config options) = Inr config" and
    r: "request net api endpoint options st =
             request_try (next_timer st) (net (fetches st))
               (emit (Fetch (baseURL api @ endpoint) config)
                  (st\<lparr>timers := (next_timer st, timeout api) # timers st, next_timer := Suc (next_timer st),
                      fetches := Suc (fetches st)\<rparr>))" by blast
  show ?thesis
    unfolding r assms(2) using c assms(3,4)
    by (simp add: request_try_def clearTimeout_def emit_def Let_def)
qed

lemma request_eval:
  "request net api endpoint options st =
     (case add_auth (auth_token st) (request_config options) of
        Inl e \<Rightarrow> (Inl e, st)
      | Inr config \<Rightarrow>
          request_try (next_timer st) (net (fetches st))
            (st\<lparr>timers := (next_timer st, timeout api) # timers st, next_timer := Suc (next_timer st),
                fetches := Suc (fetches st),
                trace := trace st @ [Fetch (baseURL api @ endpoint) config]\<rparr>))"
  by (simp add: request_def getAuthToken_def setTimeout_def emit_def split: sum.splits)

lemmas eval_defs =
  request_eval add_auth_def request_config_def no_options_def spread_prop_def obj_spread_def
  fresh_def scripted_def respond_def request_try_def request_catch_def clearTimeout_def emit_def
  ok_def new_APIError_def Let_def decimal.simps digit_def RawfinAPI_def new_events_def
  fetch_events_def header_def obj_get_def getAuthToken_def

lemma issues_fetch_no_options: "issues_fetch no_options st"
  by (simp add: issues_fetch_iff no_options_def)

lemma below_ten: "(d::nat) < 10 \<Longrightarrow> d = 0 \<or> d = 1 \<or> d = 2 \<or> d = 3 \<or> d = 4 \<or> d = 5 \<or> d = 6 \<or> d = 7 \<or> d = 8 \<or> d = 9"
  by arith

lemma digit_value_digit: "d < 10 \<Longrightarrow> digit_value (digit d) = Some d"
  by (drule below_ten) (auto simp: digit_def digit_value_def)

lemma digit_of_value: "digit_value c = Some d \<Longrightarrow> d < 10 \<and> digit d = c"
  by (auto simp: digit_def digit_value_def split: if_splits)

lemma digit_not_minus: "d < 10 \<Longrightarrow> digit d \<noteq> CHR ''-''"
  by (drule below_ten) (auto simp: digit_def)

lemma digit_zero: "d < 10 \<Longrightarrow> (digit d = CHR ''0'') = (d = 0)"
  by (drule below_ten) (auto simp: digit_def)

lemma read_digits_append:
  "read_digits acc (xs @ ys) = (case read_digits acc xs of None \<Rightarrow> None | Some a \<Rightarrow> read_digits a ys)"
  by (induction xs arbitrary: acc) (auto split: option.splits)

lemma decimal_not_empty: "decimal n \<noteq> []"
  by (subst decimal.simps) simp

lemma hd_decimal: "hd (decimal n) \<noteq> CHR ''-'' \<and> (hd (decimal n) = CHR ''0'' \<longrightarrow> n = 0)"
proof (induction n rule: decimal.induct)
  case (1 n)
  show ?case
  proof (cases "10 \<le> n")
    case True
    then have "decimal n = decimal (n div 10) @ [digit (n mod 10)]" by (subst decimal.simps) simp
    then have "hd (decimal n) = hd (decimal (n div 10))" by (simp add: decimal_not_empty)
    moreover have "n div 10 \<noteq> 0" using True by simp
    ultimately show ?thesis using "1.IH" [OF True] by simp
  next
    case False
    then have "decimal n = [digit n]" by (subst decimal.simps) simp
    with False show ?thesis by (simp add: digit_not_minus digit_zero)
  qed
qed

lemma read_digits_decimal: "read_digits 0 (decimal n) = Some n"
proof (induction n rule: decimal.induct)
  case (1 n)
  show ?case
  proof (cases "10 \<le> n")
    case True
    then have "decimal n = decimal (n div 10) @ [digit (n mod 10)]" by (subst decimal.simps) simp
    with "1.IH" [OF True] show ?thesis
      by (simp add: read_digits_append digit_value_digit)
  next
    case False
    then have "decimal n = [digit n]" by (subst decimal.simps) simp
    with False show ?thesis by (simp add: digit_value_digit)
  qed
qed

lemma read_nat_decimal: "read_nat (decimal n) = Some n"
proof (cases "decimal n")
  case Nil
  then show ?thesis by (simp add: decimal_not_empty)
next
  case (Cons c cs)
  have "\<not> (c = CHR ''0'' \<and> cs \<noteq> [])"
  proof
    assume a: "c = CHR ''0'' \<and> cs \<noteq> []"
    with Cons hd_decimal [of n] have "n = 0" by simp
    then have "decimal n = [digit 0]" by (subst decimal.simps) simp
    with Cons a show False by simp
  qed
  with Cons read_digits_decimal [of n] show ?thesis by (simp add: read_nat_def)
qed

lemma read_number_to_string: "read_number (number_to_string i) = Some i"
proof (cases "0 \<le> i")
  case True
  obtain c cs where d: "decimal (nat i) = c # cs" using decimal_not_empty [of "nat i"] by (cases "decimal (nat i)") auto
  with hd_decimal [of "nat i"] have "c \<noteq> CHR ''-''" by simp
  with True d read_nat_decimal [of "nat i"] show ?thesis
    by (simp add: read_number_def number_to_string_def)
next
  case False
  then have "nat (- i) \<noteq> 0" by simp
  with False read_nat_decimal [of "nat (- i)"] show ?thesis
    by (simp add: read_number_def number_to_string_def)
qed

lemma read_digits_snoc:
  assumes "read_digits acc (xs @ [c]) = Some m"
  shows "\<exists>a d. read_digits acc xs = Some a \<and> digit_value c = Some d \<and> m = 10 * a + d"
  using assms by (auto simp: read_digits_append split: option.splits)

lemma decimal_of_read_digits:
  assumes "read_digits 0 s = Some m" "s \<noteq> []" "hd s = CHR ''0'' \<longrightarrow> length s = 1"
  shows "decimal m = s"
  using assms
proof (induction s arbitrary: m rule: rev_induct)
  case Nil
  then show ?case by simp
next
  case (snoc c xs)
  from read_digits_snoc [OF snoc.prems(1)] obtain a d where
    a: "read_digits 0 xs = Some a" and d: "digit_value c = Some d" and m: "m = 10 * a + d" by blast
  from digit_of_value [OF d] have d10: "d < 10" and dc: "digit d = c" by simp_all
  show ?case
  proof (cases "xs = []")
    case True
    with a have "a = 0" by simp
    with m d10 have "decimal m = [digit d]" by (subst decimal.simps) simp
    with True dc show ?thesis by simp
  next
    case False
    then have h: "hd xs \<noteq> CHR ''0''" using snoc.prems(3) by (cases xs) auto
    then have "decimal a = xs" using snoc.IH [OF a False] by simp
    moreover have "a \<noteq> 0"
    proof
      assume "a = 0"
      then have "decimal a = [digit 0]" by (subst decimal.simps) simp
      with \<open>decimal a = xs\<close> have "xs = [CHR ''0'']" by (simp add: digit_def)
      with h show False by simp
    qed
    ultimately show ?thesis using m d10 dc by (subst decimal.simps) simp
  qed
qed

lemma decimal_of_read_nat: "read_nat s = Some m \<Longrightarrow> decimal m = s"
  by (rule decimal_of_read_digits) (auto simp: read_nat_def split: list.splits if_splits)

lemma number_to_string_of_read: "read_number s = Some i \<Longrightarrow> number_to_string i = s"
  by (auto simp: read_number_def number_to_string_def decimal_of_read_nat
      split: list.splits if_splits option.splits)

lemma decimal_6: "number_to_string 6 = ''6''"
  by (simp add: number_to_string_def decimal.simps digit_def)

lemma request_get_no_options:
  "\<exists>config evs.
      new_events st (snd (request net api endpoint no_options st)) = Fetch (baseURL api @ endpoint) config # evs \<and>
      r_method config = Val ''GET'' \<and> r_body config = Absent \<and>
      header config ''Authorization'' =
        (if truthy_str (getAuthToken st) then Some (''Bearer '' @ the (getAuthToken st)) else None) \<and>
      delays evs = [] \<and> fetch_events evs = [] \<and> (\<forall>ev\<in>set evs. \<not> is_page_action ev)"
proof -
  from request_new_events [OF issues_fetch_no_options, of st net api endpoint] obtain config evs where
    c: "add_auth (getAuthToken st) (request_config no_options) = Inr config" and
    n: "new_events st (snd (request net api endpoint no_options st)) = Fetch (baseURL api @ endpoint) config # evs" and
    e: "delays evs = []" "fetch_events evs = []" "\<forall>ev\<in>set evs. \<not> is_page_action ev"
    by blast
  have "r_method config = Val ''GET''"
    using header_add_auth(2) [OF c] by (simp add: request_config_def no_options_def spread_prop_def)
  moreover have "r_body config = Absent"
    using c by (auto simp: add_auth_def request_config_def no_options_def spread_prop_def split: if_splits slot.splits)
  moreover have "header config ''Authorization'' =
        (if truthy_str (getAuthToken st) then Some (''Bearer '' @ the (getAuthToken st)) else None)"
    using header_add_auth(1) [OF c] by (simp add: header_def no_options_def)
  ultimately show ?thesis using n e by blast
qed

section \<open>Facts about the auth sub-client\<close>

lemma setAuthToken_facts:
  "auth_token (setAuthToken token st) = (if truthy_str token then token else None)"
  "user_data (setAuthToken token st) = user_data st"
  "trace (setAuthToken token st) = trace st"
  "fetches (setAuthToken token st) = fetches st"
  by (simp_all add: setAuthToken_def)

lemma setUserData_facts:
  "user_data (setUserData data st) = (if truthy data then Some data else None)"
  "auth_token (setUserData data st) = auth_token st"
  "trace (setUserData data st) = trace st"
  "fetches (setUserData data st) = fetches st"
  by (simp_all add: setUserData_def)

lemma logout_run:
  "auth_token (snd (logout net api st)) = None \<and>
   user_data (snd (logout net api st)) = None \<and>
   fetches (snd (logout net api st)) = Suc (fetches st) \<and>
   (\<exists>v. fst (logout net api st) = Inr v) \<and>
   (\<exists>config evs.
      trace (snd (logout net api st)) = trace st @ Fetch (baseURL api @ ''/auth/logout'') config # evs \<and>
      r_method config = Val ''POST'' \<and> header config ''Authorization'' = None \<and>
      delays evs = [] \<and> fetch_events evs = [] \<and> (\<forall>ev\<in>set evs. \<not> is_page_action ev))"
proof -
  define st2 where "st2 = setUserData JNull (setAuthToken None st)"
  define opts where "opts = no_options\<lparr>r_method := Val ''POST''\<rparr>"
  have s2: "auth_token st2 = None" "user_data st2 = None" "trace st2 = trace st" "fetches st2 = fetches st"
    by (simp_all add: st2_def setUserData_facts setAuthToken_facts)
  have iss: "issues_fetch opts st2"
    by (simp add: issues_fetch_iff getAuthToken_def s2)
  obtain res st3 where r: "request net api ''/auth/logout'' opts st2 = (res, st3)" by fastforce
  have l: "logout net api st =
             (case res of Inr v \<Rightarrow> (Inr (Some v), st3)
                        | Inl error \<Rightarrow> (Inr None, emit (ConsoleError ''Logout API error:'' error) st3))"
    by (simp add: logout_def Let_def r [unfolded st2_def opts_def] split: sum.splits)
  have a3: "auth_token st3 = None" "user_data st3 = None" "fetches st3 = Suc (fetches st)"
    using request_facts [of net api "''/auth/logout''" opts st2] r s2 iss by simp_all
  from request_trace [OF iss, of net api "''/auth/logout''"] r s2(3) obtain config evs where
    c: "add_auth (getAuthToken st2) (request_config opts) = Inr config" and
    n: "trace st3 = trace st @ Fetch (baseURL api @ ''/auth/logout'') config # evs" and
    e: "delays evs = []" "fetch_events evs = []" "\<forall>ev\<in>set evs. \<not> is_page_action ev"
    by auto
  have h: "header config ''Authorization'' = None" "r_method config = Val ''POST''"
    using header_add_auth [OF c]
    by (simp_all add: getAuthToken_def s2 opts_def no_options_def header_def request_config_def spread_prop_def)
  show ?thesis
  proof (cases res)
    case (Inr v)
    then have lo: "logout net api st = (Inr (Some v), st3)" using l by simp
    have "\<exists>config evs.
      trace st3 = trace st @ Fetch (baseURL api @ ''/auth/logout'') config # evs \<and>
      r_method config = Val ''POST'' \<and> header config ''Authorization'' = None \<and>
      delays evs = [] \<and> fetch_events evs = [] \<and> (\<forall>ev\<in>set evs. \<not> is_page_action ev)"
      using n h e by blast
    then show ?thesis unfolding lo using a3 by simp
  next
    case (Inl error)
    define st4 where "st4 = emit (ConsoleError ''Logout API error:'' error) st3"
    define evs4 where "evs4 = evs @ [ConsoleError ''Logout API error:'' error]"
    have lo: "logout net api st = (Inr None, st4)" using l Inl by (simp add: st4_def)
    have ne: "trace st4 = trace st @ Fetch (baseURL api @ ''/auth/logout'') config # evs4"
      using n by (simp add: emit_def st4_def evs4_def)
    have e4: "delays evs4 = []" "fetch_events evs4 = []" "\<forall>ev\<in>set evs4. \<not> is_page_action ev"
      using e by (auto simp: evs4_def delays_append fetch_events_append delays_simps fetch_events_simps)
    have a4: "auth_token st4 = None" "user_data st4 = None" "fetches st4 = Suc (fetches st)"
      using a3 by (simp_all add: emit_def st4_def)
    have "\<exists>config evs.
      trace st4 = trace st @ Fetch (baseURL api @ ''/auth/logout'') config # evs \<and>
      r_method config = Val ''POST'' \<and> header config ''Authorization'' = None \<and>
      delays evs = [] \<and> fetch_events evs = [] \<and> (\<forall>ev\<in>set evs. \<not> is_page_action ev)"
      using ne h e4 by blast
    then show ?thesis unfolding lo using a4 by simp
  qed
qed

lemma getProfile_cases:
  "fst (getProfile net api st) = fst (request net api ''/auth/profile'' no_options st)"
  "fst (request net api ''/auth/profile'' no_options st) = Inr data \<Longrightarrow>
     snd (getProfile net api st) = setUserData data (snd (request net api ''/auth/profile'' no_options st))"
  "fst (request net api ''/auth/profile'' no_options st) = Inl e \<Longrightarrow>
     snd (getProfile net api st) = snd (logout net api (snd (request net api ''/auth/profile'' no_options st)))"
  by (auto simp: getProfile_def split: prod.splits sum.splits)

lemma page_action_navigate:
  assumes "\<forall>ev\<in>set evs. \<not> is_page_action ev"
  shows "\<forall>ev\<in>set (evs @ [Navigate ''/'']). is_page_action ev \<longrightarrow> ev = Navigate ''/''"
  using assms by auto

text \<open>
  The scenario of two 503 answers followed by a 200: the caller gets the payload of the
  third attempt, after delays of one and two base delays.
\<close>

lemma scenario_503_503_200:
  "fst (requestWithRetry (scripted [respond 503 (JObj []), respond 503 (JObj [])] (respond 200 (JStr ''payload'')))
          RawfinAPI ''/episodes/featured'' no_options 1 fresh) = Inr (JStr ''payload'') \<and>
   delays (trace (snd (requestWithRetry (scripted [respond 503 (JObj []), respond 503 (JObj [])] (respond 200 (JStr ''payload'')))
          RawfinAPI ''/episodes/featured'' no_options 1 fresh))) = [1000, 2000]"
  by (simp add: requestWithRetry.simps eval_defs shouldRetry_def options_after_def delay_def delays_def)

section \<open>The claims\<close>



lemma request_APIError_issued:
  assumes "request net api endpoint options st = (Inl (APIError message code data), st1)"
  shows "issues_fetch options st"
proof (rule ccontr)
  assume "\<not> issues_fetch options st"
  from request_not_issued [OF this, of net api endpoint] assms show False by simp
qed

lemma request_rejected:
  assumes "issues_fetch options st" "net (fetches st) = Rejected e"
  shows "fst (request net api endpoint options st) =
           (if error_name e = ''AbortError'' then Inl (APIError ''Request timeout'' 408 (JObj [])) else Inl e)"
    and "timers (snd (request net api endpoint options st)) = filter (\<lambda>(i, ms). i \<noteq> next_timer st) (timers st)"
    and "fetches (snd (request net api endpoint options st)) = Suc (fetches st)"
proof -
  from request_issued [OF assms(1), of net api endpoint] obtain config where
    r: "request net api endpoint options st =
             request_try (next_timer st) (net (fetches st))
               (emit (Fetch (baseURL api @ endpoint) config)
                  (st\<lparr>timers := (next_timer st, timeout api) # timers st, next_timer := Suc (next_timer st),
                      fetches := Suc (fetches st)\<rparr>))" by blast
  show "fst (request net api endpoint options st) =
           (if error_name e = ''AbortError'' then Inl (APIError ''Request timeout'' 408 (JObj [])) else Inl e)"
    unfolding r assms(2) by (simp add: request_try_def request_catch_def new_APIError_def)
  show "timers (snd (request net api endpoint options st)) = filter (\<lambda>(i, ms). i \<noteq> next_timer st) (timers st)"
    unfolding r by (simp add: request_try_facts emit_def)
  show "fetches (snd (request net api endpoint options st)) = Suc (fetches st)"
    unfolding r by (simp add: request_try_facts emit_def)
qed

lemma issues_fetch_no_headers: "r_headers options = Absent \<Longrightarrow> issues_fetch options st"
  by (simp add: issues_fetch_iff)

lemma issues_fetch_fresh: "issues_fetch options fresh"
  by (simp add: issues_fetch_iff getAuthToken_def fresh_def)

lemma request_fresh_401:
  "fst (request (scripted [] (respond 401 (JObj []))) RawfinAPI ''/auth/profile'' no_options fresh) =
     Inl (APIError ''API Error: 401'' 401 (JObj []))"
  by (simp add: request_def add_auth_def request_config_def no_options_def spread_prop_def
      obj_spread_def getAuthToken_def fresh_def setTimeout_def emit_def scripted_def respond_def
      request_try_def request_catch_def clearTimeout_def ok_def new_APIError_def Let_def
      decimal.simps digit_def)

text \<open>
  C2. When the underlying request fails with an \<^verbatim>\<open>APIError\<close> whose status is 4xx and
  not 429 (408, the timeout, among them), \<^verbatim>\<open>requestWithRetry\<close> ends with that one call
  of \<^verbatim>\<open>request\<close>: one \<^verbatim>\<open>fetch\<close>, no delay, and the same \<^verbatim>\<open>APIError\<close> for the caller,
  whatever the attempt counter is.
\<close>

theorem requestWithRetry_no_retry_4xx:
  assumes "request net api endpoint options st = (Inl (APIError message code data), st1)"
    and "400 \<le> code" and "code < 500" and "code \<noteq> 429"
  shows "requestWithRetry net api endpoint options attempt st = (Inl (APIError message code data), st1) \<and>
         fetches st1 = Suc (fetches st) \<and>
         length (fetch_events (new_events st st1)) = 1 \<and>
         delays (new_events st st1) = []"
proof -
  have iss: "issues_fetch options st" using assms(1) by (rule request_APIError_issued)
  have "\<not> shouldRetry (APIError message code data)"
    using assms(2-4) by (simp add: shouldRetry_def)
  then have stop: "requestWithRetry net api endpoint options attempt st = (Inl (APIError message code data), st1)"
    using requestWithRetry_stop [OF assms(1)] by blast
  have f: "fetches st1 = Suc (fetches st)"
    using request_facts(3) [of net api endpoint options st] assms(1) iss by simp
  from request_trace [OF iss, of net api endpoint] assms(1) obtain config evs where
    "trace st1 = trace st @ Fetch (baseURL api @ endpoint) config # evs"
    "delays evs = []" "fetch_events evs = []" by auto
  then have "new_events st st1 = Fetch (baseURL api @ endpoint) config # evs"
    "delays evs = []" "fetch_events evs = []" by (simp_all add: new_events_def)
  then have "length (fetch_events (new_events st st1)) = 1" "delays (new_events st st1) = []"
    by (simp_all add: fetch_events_simps delays_simps)
  with stop f show ?thesis by simp
qed

theorem requestWithRetry_no_retry_4xx_witness:
  "fst (requestWithRetry (scripted [] (respond 401 (JObj []))) RawfinAPI ''/auth/profile'' no_options 1 fresh) =
     Inl (APIError ''API Error: 401'' 401 (JObj [])) \<and>
   fetches (snd (requestWithRetry (scripted [] (respond 401 (JObj []))) RawfinAPI ''/auth/profile'' no_options 1 fresh)) = 1 \<and>
   delays (new_events fresh
     (snd (requestWithRetry (scripted [] (respond 401 (JObj []))) RawfinAPI ''/auth/profile'' no_options 1 fresh))) = [] \<and>
   fst (requestWithRetry (scripted [] (Rejected (Thrown ''AbortError'' ''signal is aborted without reason'')))
          RawfinAPI ''/auth/profile'' no_options 1 fresh) =
     Inl (APIError ''Request timeout'' 408 (JObj [])) \<and>
   fetches (snd (requestWithRetry (scripted [] (Rejected (Thrown ''AbortError'' ''signal is aborted without reason'')))
          RawfinAPI ''/auth/profile'' no_options 1 fresh)) = 1"
proof -
  let ?net = "scripted [] (respond 401 (JObj []))"
  let ?r = "request ?net RawfinAPI ''/auth/profile'' no_options fresh"
  let ?abort = "scripted [] (Rejected (Thrown ''AbortError'' ''signal is aborted without reason''))"
  let ?t = "request ?abort RawfinAPI ''/auth/profile'' no_options fresh"
  have h: "?r = (Inl (APIError ''API Error: 401'' 401 (JObj [])), snd ?r)"
    using request_fresh_401 by (metis prod.collapse)
  have "fst ?t = Inl (APIError ''Request timeout'' 408 (JObj []))"
    by (simp add: eval_defs)
  then have k: "?t = (Inl (APIError ''Request timeout'' 408 (JObj [])), snd ?t)"
    by (metis prod.collapse)
  have "fetches fresh = 0" by (simp add: fresh_def)
  with requestWithRetry_no_retry_4xx [OF h, of 1] requestWithRetry_no_retry_4xx [OF k, of 1]
  show ?thesis by simp
qed

text \<open>
  C3. When \<^verbatim>\<open>fetch\<close> rejects with something that is not an \<^verbatim>\<open>APIError\<close> and is not
  named \<^verbatim>\<open>AbortError\<close>, \<^verbatim>\<open>request\<close> clears its timeout timer and fails with that same
  object, and \<^verbatim>\<open>requestWithRetry\<close> is that single call of \<^verbatim>\<open>request\<close>.
\<close>

theorem request_transport_failure_unchanged:
  assumes "issues_fetch options st" and "net (fetches st) = Rejected e"
    and "\<not> instanceof_APIError e" and "error_name e \<noteq> ''AbortError''"
  shows "fst (request net api endpoint options st) = Inl e \<and>
         next_timer st \<notin> fst ` set (timers (snd (request net api endpoint options st))) \<and>
         requestWithRetry net api endpoint options attempt st = request net api endpoint options st \<and>
         fetches (snd (request net api endpoint options st)) = Suc (fetches st)"
proof -
  have r: "fst (request net api endpoint options st) = Inl e"
    using request_rejected(1) [where net = net, OF assms(1,2)] assms(4) by simp
  have "\<not> shouldRetry e" using assms(3) by (simp add: shouldRetry_def)
  then have "requestWithRetry net api endpoint options attempt st = request net api endpoint options st"
    using requestWithRetry_stop [of net api endpoint options st "Inl e" "snd (request net api endpoint options st)" attempt] r
    by (metis prod.collapse sum.inject(1))
  moreover have "next_timer st \<notin> fst ` set (timers (snd (request net api endpoint options st)))"
    unfolding request_rejected(2) [where net = net, OF assms(1,2)] by auto
  ultimately show ?thesis using r request_rejected(3) [where net = net, OF assms(1,2)] by simp
qed

theorem request_transport_failure_unchanged_witness:
  "fst (request (scripted [] (Rejected (Thrown ''TypeError'' ''Failed to fetch''))) RawfinAPI ''/contact'' no_options fresh) =
     Inl (Thrown ''TypeError'' ''Failed to fetch'') \<and>
   0 \<notin> fst ` set (timers (snd (request (scripted [] (Rejected (Thrown ''TypeError'' ''Failed to fetch''))) RawfinAPI ''/contact'' no_options fresh))) \<and>
   requestWithRetry (scripted [] (Rejected (Thrown ''TypeError'' ''Failed to fetch''))) RawfinAPI ''/contact'' no_options 1 fresh =
     request (scripted [] (Rejected (Thrown ''TypeError'' ''Failed to fetch''))) RawfinAPI ''/contact'' no_options fresh \<and>
   fetches (snd (request (scripted [] (Rejected (Thrown ''TypeError'' ''Failed to fetch''))) RawfinAPI ''/contact'' no_options fresh)) = 1"
proof -
  have "next_timer fresh = 0" "fetches fresh = 0" by (simp_all add: fresh_def)
  with request_transport_failure_unchanged [of no_options fresh
      "scripted [] (Rejected (Thrown ''TypeError'' ''Failed to fetch''))"
      "Thrown ''TypeError'' ''Failed to fetch''" RawfinAPI "''/contact''" 1]
  show ?thesis by (simp add: issues_fetch_fresh scripted_def)
qed

text \<open>
  C4. When \<^verbatim>\<open>fetch\<close> rejects with an error named \<^verbatim>\<open>AbortError\<close>, whatever else the
  error says, \<^verbatim>\<open>request\<close> fails with \<^verbatim>\<open>APIError('Request timeout', 408)\<close>, whose data
  is the empty object.
\<close>

theorem request_timeout_408:
  assumes "issues_fetch options st" and "net (fetches st) = Rejected e"
    and "error_name e = ''AbortError''"
  shows "fst (request net api endpoint options st) = Inl (APIError ''Request timeout'' 408 (JObj []))"
  using request_rejected(1) [where net = net, OF assms(1,2)] assms(3) by simp

theorem request_timeout_408_witness:
  "fst (request (scripted [] (Rejected (Thrown ''AbortError'' ''signal is aborted without reason'')))
          RawfinAPI ''/search?q=tv'' no_options fresh) =
     Inl (APIError ''Request timeout'' 408 (JObj []))"
  using request_timeout_408 [of no_options fresh
      "scripted [] (Rejected (Thrown ''AbortError'' ''signal is aborted without reason''))"
      "Thrown ''AbortError'' ''signal is aborted without reason''" RawfinAPI "''/search?q=tv''"]
  by (simp add: issues_fetch_fresh scripted_def)

text \<open>
  C5. The headers of the outgoing request are meant to be the default
  \<^verbatim>\<open>Content-Type: application/json\<close> merged with the caller's headers. The code builds
  that merge and then spreads \<^verbatim>\<open>...options\<close> over it, so the \<^verbatim>\<open>headers\<close> key of
  \<^verbatim>\<open>options\<close> replaces the merged object: a call with the one header
  \<^verbatim>\<open>X-Requested-With\<close> goes out with that header alone and no \<^verbatim>\<open>Content-Type\<close>.
\<close>

theorem request_caller_headers_replace_default:
  "fetch_events (new_events fresh (snd (request (scripted [] (respond 200 (JObj []))) RawfinAPI ''/contact''
       \<lparr>r_method = Val ''POST'', r_headers = Val [(''X-Requested-With'', ''rawfin'')], r_body = Val ''{}''\<rparr> fresh))) =
     [Fetch ''https://rawfin.tv/api/contact''
        \<lparr>r_method = Val ''POST'', r_headers = Val [(''X-Requested-With'', ''rawfin'')], r_body = Val ''{}''\<rparr>] \<and>
   header \<lparr>r_method = Val ''POST'', r_headers = Val [(''X-Requested-With'', ''rawfin'')], r_body = Val ''{}''\<rparr>
     ''Content-Type'' = None"
  by (simp add: eval_defs)

text \<open>
  C6, as the code has it. For every request that \<^verbatim>\<open>request\<close> sends: with a non-empty token
  in storage its \<^verbatim>\<open>Authorization\<close> header is \<^verbatim>\<open>Bearer <token>\<close>; with no token or an
  empty one \<^verbatim>\<open>request\<close> adds nothing, and the header is whatever the caller's
  \<^verbatim>\<open>options.headers\<close> holds under that name (absent when the caller gave none).
\<close>

theorem request_authorization_header:
  assumes "Fetch url config \<in> set (new_events st (snd (request net api endpoint options st)))"
  shows "header config ''Authorization'' =
           (if truthy_str (getAuthToken st) then Some (''Bearer '' @ the (getAuthToken st))
            else header options ''Authorization'')"
proof (cases "issues_fetch options st")
  case False
  with assms show ?thesis by (simp add: request_no_new_events)
next
  case True
  from request_new_events [OF True, of net api endpoint] obtain c evs where
    c: "add_auth (getAuthToken st) (request_config options) = Inr c" and
    n: "new_events st (snd (request net api endpoint options st)) = Fetch (baseURL api @ endpoint) c # evs" and
    f: "fetch_events evs = []" by blast
  from assms n f have "config = c" using not_fetch_member [OF f, of "Fetch url config"] by auto
  with header_add_auth(1) [OF c] show ?thesis by simp
qed

theorem request_authorization_header_witness:
  "header \<lparr>r_method = Val ''GET'',
           r_headers = Val [(''Content-Type'', ''application/json''), (''Authorization'', ''Bearer abc'')],
           r_body = Absent\<rparr> ''Authorization'' = Some ''Bearer abc''"
proof -
  have "Fetch ''https://rawfin.tv/api/episodes/featured''
          \<lparr>r_method = Val ''GET'',
           r_headers = Val [(''Content-Type'', ''application/json''), (''Authorization'', ''Bearer abc'')],
           r_body = Absent\<rparr>
        \<in> set (new_events (signed_in ''abc'')
             (snd (request (scripted [] (respond 200 (JObj []))) RawfinAPI ''/episodes/featured'' no_options (signed_in ''abc''))))"
    by (simp add: eval_defs signed_in_def)
  from request_authorization_header [OF this] show ?thesis
    by (simp add: getAuthToken_def signed_in_def fresh_def)
qed

text \<open>
  The claim as stated, that without a token no request carries an \<^verbatim>\<open>Authorization\<close>
  header, fails when the caller passes one: with empty storage, the caller's
  \<^verbatim>\<open>Authorization: Bearer stale\<close> is sent.
\<close>

theorem request_authorization_without_token_counterexample:
  "getAuthToken fresh = None \<and>
   fetch_events (new_events fresh (snd (request (scripted [] (respond 200 (JObj []))) RawfinAPI ''/episodes/featured''
       (no_options\<lparr>r_headers := Val [(''Authorization'', ''Bearer stale'')]\<rparr>) fresh))) =
     [Fetch ''https://rawfin.tv/api/episodes/featured''
        \<lparr>r_method = Val ''GET'', r_headers = Val [(''Authorization'', ''Bearer stale'')], r_body = Absent\<rparr>] \<and>
   header \<lparr>r_method = Val ''GET'', r_headers = Val [(''Authorization'', ''Bearer stale'')], r_body = Absent\<rparr>
     ''Authorization'' = Some ''Bearer stale''"
  by (simp add: eval_defs)

lemma logout_cases:
  "fst (request net api ''/auth/logout'' (no_options\<lparr>r_method := Val ''POST''\<rparr>)
          (setUserData JNull (setAuthToken None st))) = Inl e \<Longrightarrow>
     logout net api st =
       (Inr None,
        emit (ConsoleError ''Logout API error:'' e)
          (snd (request net api ''/auth/logout'' (no_options\<lparr>r_method := Val ''POST''\<rparr>)
                  (setUserData JNull (setAuthToken None st)))))"
  "fst (request net api ''/auth/logout'' (no_options\<lparr>r_method := Val ''POST''\<rparr>)
          (setUserData JNull (setAuthToken None st))) = Inr v \<Longrightarrow>
     logout net api st =
       (Inr (Some v),
        snd (request net api ''/auth/logout'' (no_options\<lparr>r_method := Val ''POST''\<rparr>)
               (setUserData JNull (setAuthToken None st))))"
  by (auto simp: logout_def Let_def split: prod.splits sum.splits)

text \<open>
  C7. \<^verbatim>\<open>logout()\<close> leaves both storage slots empty and its promise fulfilled, whatever
  the call of \<^verbatim>\<open>fetch\<close> does; it issues one \<^verbatim>\<open>POST /auth/logout\<close>, and that request
  already goes out without a token, the slots being cleared before it. When that request
  fails, with whatever failure, the failure is logged under \<^verbatim>\<open>Logout API error:\<close> as the
  last thing \<^verbatim>\<open>logout()\<close> does and the promise is fulfilled with \<^verbatim>\<open>undefined\<close>; when it
  succeeds, the promise is fulfilled with the answer.
\<close>

theorem logout_always_clears:
  "auth_token (snd (logout net api st)) = None \<and>
   user_data (snd (logout net api st)) = None \<and>
   (\<exists>v. fst (logout net api st) = Inr v) \<and>
   (\<exists>config evs.
      new_events st (snd (logout net api st)) = Fetch (baseURL api @ ''/auth/logout'') config # evs \<and>
      r_method config = Val ''POST'' \<and> header config ''Authorization'' = None \<and> fetch_events evs = []) \<and>
   (\<forall>e. fst (request net api ''/auth/logout'' (no_options\<lparr>r_method := Val ''POST''\<rparr>)
               (setUserData JNull (setAuthToken None st))) = Inl e \<longrightarrow>
      fst (logout net api st) = Inr None \<and>
      ConsoleError ''Logout API error:'' e \<in> set (new_events st (snd (logout net api st))) \<and>
      last (new_events st (snd (logout net api st))) = ConsoleError ''Logout API error:'' e) \<and>
   (\<forall>v. fst (request net api ''/auth/logout'' (no_options\<lparr>r_method := Val ''POST''\<rparr>)
               (setUserData JNull (setAuthToken None st))) = Inr v \<longrightarrow>
      fst (logout net api st) = Inr (Some v))"
proof -
  from logout_run [of net api st] obtain config evs where
    t: "trace (snd (logout net api st)) = trace st @ Fetch (baseURL api @ ''/auth/logout'') config # evs" and
    c: "r_method config = Val ''POST''" "header config ''Authorization'' = None" "fetch_events evs = []"
    by blast
  have n: "new_events st (snd (logout net api st)) = Fetch (baseURL api @ ''/auth/logout'') config # evs"
    using t by (simp add: new_events_def)
  have issued: "\<exists>config evs.
      new_events st (snd (logout net api st)) = Fetch (baseURL api @ ''/auth/logout'') config # evs \<and>
      r_method config = Val ''POST'' \<and> header config ''Authorization'' = None \<and> fetch_events evs = []"
    using n c by blast
  have logged: "fst (logout net api st) = Inr None \<and>
      ConsoleError ''Logout API error:'' e \<in> set (new_events st (snd (logout net api st))) \<and>
      last (new_events st (snd (logout net api st))) = ConsoleError ''Logout API error:'' e"
    if "fst (request net api ''/auth/logout'' (no_options\<lparr>r_method := Val ''POST''\<rparr>)
               (setUserData JNull (setAuthToken None st))) = Inl e" for e
  proof -
    have l: "last (trace (snd (logout net api st))) = ConsoleError ''Logout API error:'' e"
      and r: "fst (logout net api st) = Inr None"
      by (simp_all add: logout_cases(1) [OF that] emit_def)
    have "last (new_events st (snd (logout net api st))) = ConsoleError ''Logout API error:'' e"
      using l unfolding n t by simp
    moreover have "last (new_events st (snd (logout net api st))) \<in> set (new_events st (snd (logout net api st)))"
      unfolding n by (rule last_in_set) simp
    ultimately show ?thesis using r by simp
  qed
  have answered: "fst (logout net api st) = Inr (Some v)"
    if "fst (request net api ''/auth/logout'' (no_options\<lparr>r_method := Val ''POST''\<rparr>)
               (setUserData JNull (setAuthToken None st))) = Inr v" for v
    by (simp add: logout_cases(2) [OF that])
  from logout_run [of net api st] issued logged answered show ?thesis by blast
qed

theorem logout_always_clears_witness:
  "auth_token (snd (logout (scripted [] (Rejected (Thrown ''TypeError'' ''Failed to fetch''))) RawfinAPI (signed_in ''abc''))) = None \<and>
   user_data (snd (logout (scripted [] (Rejected (Thrown ''TypeError'' ''Failed to fetch''))) RawfinAPI (signed_in ''abc''))) = None \<and>
   fst (logout (scripted [] (Rejected (Thrown ''TypeError'' ''Failed to fetch''))) RawfinAPI (signed_in ''abc'')) = Inr None \<and>
   last (new_events (signed_in ''abc'')
      (snd (logout (scripted [] (Rejected (Thrown ''TypeError'' ''Failed to fetch''))) RawfinAPI (signed_in ''abc'')))) =
     ConsoleError ''Logout API error:'' (Thrown ''TypeError'' ''Failed to fetch'') \<and>
   fst (logout (scripted [] (respond 200 (JObj [(''ok'', JBool True)]))) RawfinAPI (signed_in ''abc'')) =
     Inr (Some (JObj [(''ok'', JBool True)]))"
proof -
  have a: "fst (request (scripted [] (Rejected (Thrown ''TypeError'' ''Failed to fetch''))) RawfinAPI ''/auth/logout''
              (no_options\<lparr>r_method := Val ''POST''\<rparr>) (setUserData JNull (setAuthToken None (signed_in ''abc'')))) =
           Inl (Thrown ''TypeError'' ''Failed to fetch'')"
    by (simp add: setAuthToken_def setUserData_def signed_in_def eval_defs)
  have b: "fst (request (scripted [] (respond 200 (JObj [(''ok'', JBool True)]))) RawfinAPI ''/auth/logout''
              (no_options\<lparr>r_method := Val ''POST''\<rparr>) (setUserData JNull (setAuthToken None (signed_in ''abc'')))) =
           Inr (JObj [(''ok'', JBool True)])"
    by (simp add: setAuthToken_def setUserData_def signed_in_def eval_defs)
  from logout_always_clears [of "scripted [] (Rejected (Thrown ''TypeError'' ''Failed to fetch''))" RawfinAPI "signed_in ''abc''"]
       logout_always_clears [of "scripted [] (respond 200 (JObj [(''ok'', JBool True)]))" RawfinAPI "signed_in ''abc''"]
       a b
  show ?thesis by simp
qed

text \<open>
  C8, as the code has it. \<^verbatim>\<open>getProfile()\<close> ends as its request of
  \<^verbatim>\<open>/auth/profile\<close> ends: it returns the fetched profile, or fails with the same failure.
  On success the token is untouched and the profile slot holds the profile when the
  profile is truthy, and is emptied when it is falsy (\<^verbatim>\<open>null\<close>, \<^verbatim>\<open>false\<close>, \<^verbatim>\<open>0\<close>,
  \<^verbatim>\<open>""\<close>). On failure \<^verbatim>\<open>logout()\<close> has run: both slots are empty, the logout request
  has been issued, and \<^verbatim>\<open>isAuthenticated()\<close> is false.
\<close>

theorem getProfile_outcome:
  "fst (getProfile net api st) = fst (request net api ''/auth/profile'' no_options st) \<and>
   (\<forall>data. fst (getProfile net api st) = Inr data \<longrightarrow>
      user_data (snd (getProfile net api st)) = (if truthy data then Some data else None) \<and>
      auth_token (snd (getProfile net api st)) = auth_token st) \<and>
   (\<forall>e. fst (getProfile net api st) = Inl e \<longrightarrow>
      \<not> isAuthenticated (snd (getProfile net api st)) \<and>
      auth_token (snd (getProfile net api st)) = None \<and>
      user_data (snd (getProfile net api st)) = None \<and>
      (\<exists>config. Fetch (baseURL api @ ''/auth/logout'') config
          \<in> set (new_events (snd (request net api ''/auth/profile'' no_options st)) (snd (getProfile net api st))) \<and>
        r_method config = Val ''POST''))"
proof (intro conjI allI impI)
  show "fst (getProfile net api st) = fst (request net api ''/auth/profile'' no_options st)"
    by (rule getProfile_cases(1))
next
  fix data assume "fst (getProfile net api st) = Inr data"
  then have r: "fst (request net api ''/auth/profile'' no_options st) = Inr data"
    by (simp add: getProfile_cases(1))
  show "user_data (snd (getProfile net api st)) = (if truthy data then Some data else None)"
    by (simp add: getProfile_cases(2) [OF r] setUserData_facts)
  show "auth_token (snd (getProfile net api st)) = auth_token st"
    by (simp add: getProfile_cases(2) [OF r] setUserData_facts request_facts)
next
  fix e assume "fst (getProfile net api st) = Inl e"
  then have r: "fst (request net api ''/auth/profile'' no_options st) = Inl e"
    by (simp add: getProfile_cases(1))
  define st1 where "st1 = snd (request net api ''/auth/profile'' no_options st)"
  have g: "snd (getProfile net api st) = snd (logout net api st1)"
    unfolding st1_def by (rule getProfile_cases(3) [OF r])
  show "auth_token (snd (getProfile net api st)) = None"
    unfolding g using logout_run [of net api st1] by blast
  then show "\<not> isAuthenticated (snd (getProfile net api st))"
    by (simp add: isAuthenticated_def getAuthToken_def)
  show "user_data (snd (getProfile net api st)) = None"
    unfolding g using logout_run [of net api st1] by blast
  from logout_run [of net api st1] obtain config evs where
    "trace (snd (logout net api st1)) = trace st1 @ Fetch (baseURL api @ ''/auth/logout'') config # evs"
    "r_method config = Val ''POST''" by blast
  then show "\<exists>config. Fetch (baseURL api @ ''/auth/logout'') config
          \<in> set (new_events (snd (request net api ''/auth/profile'' no_options st)) (snd (getProfile net api st))) \<and>
        r_method config = Val ''POST''"
    unfolding g st1_def [symmetric] by (auto simp: new_events_def)
qed

theorem getProfile_outcome_witness:
  "fst (getProfile (scripted [] (respond 200 (JObj [(''name'', JStr ''Ada'')]))) RawfinAPI (signed_in ''abc'')) =
     Inr (JObj [(''name'', JStr ''Ada'')]) \<and>
   user_data (snd (getProfile (scripted [] (respond 200 (JObj [(''name'', JStr ''Ada'')]))) RawfinAPI (signed_in ''abc''))) =
     Some (JObj [(''name'', JStr ''Ada'')]) \<and>
   fst (getProfile (scripted [] (respond 401 (JObj []))) RawfinAPI (signed_in ''abc'')) =
     Inl (APIError ''API Error: 401'' 401 (JObj [])) \<and>
   isAuthenticated (signed_in ''abc'') \<and>
   \<not> isAuthenticated (snd (getProfile (scripted [] (respond 401 (JObj []))) RawfinAPI (signed_in ''abc'')))"
proof -
  have a: "fst (request (scripted [] (respond 200 (JObj [(''name'', JStr ''Ada'')]))) RawfinAPI ''/auth/profile'' no_options (signed_in ''abc'')) =
     Inr (JObj [(''name'', JStr ''Ada'')])"
    by (simp add: eval_defs signed_in_def)
  have b: "fst (request (scripted [] (respond 401 (JObj []))) RawfinAPI ''/auth/profile'' no_options (signed_in ''abc'')) =
     Inl (APIError ''API Error: 401'' 401 (JObj []))"
    by (simp add: eval_defs signed_in_def)
  have c: "isAuthenticated (signed_in ''abc'')"
    by (simp add: isAuthenticated_def getAuthToken_def signed_in_def fresh_def)
  from getProfile_outcome [of "scripted [] (respond 200 (JObj [(''name'', JStr ''Ada'')]))" RawfinAPI "signed_in ''abc''"]
       getProfile_outcome [of "scripted [] (respond 401 (JObj []))" RawfinAPI "signed_in ''abc''"]
       a b c
  show ?thesis by simp
qed

text \<open>
  The claim as stated, that every successful \<^verbatim>\<open>getProfile()\<close> stores the profile, fails
  on a falsy one: the backend answers 200 with the body \<^verbatim>\<open>false\<close>, \<^verbatim>\<open>getProfile()\<close>
  returns \<^verbatim>\<open>false\<close>, and the slot is empty (\<^verbatim>\<open>getUserData()\<close> gives \<^verbatim>\<open>null\<close>).
\<close>

theorem getProfile_falsy_profile_counterexample:
  "fst (getProfile (scripted [] (respond 200 (JBool False))) RawfinAPI (signed_in ''abc'')) = Inr (JBool False) \<and>
   user_data (snd (getProfile (scripted [] (respond 200 (JBool False))) RawfinAPI (signed_in ''abc''))) = None \<and>
   getUserData (snd (getProfile (scripted [] (respond 200 (JBool False))) RawfinAPI (signed_in ''abc''))) = JNull"
  by (simp add: getProfile_def setUserData_def getUserData_def eval_defs signed_in_def)

text \<open>
  C9. \<^verbatim>\<open>episodes.getRecent(n)\<close> calls \<^verbatim>\<open>fetch\<close> once, with the method \<^verbatim>\<open>GET\<close>, no
  body, and the URL made of the base origin, \<^verbatim>\<open>/episodes/recent?limit=\<close> and the text of
  the limit: \<^verbatim>\<open>6\<close> when the argument is left out; for an integer \<open>n\<close> up to \<open>2^53\<close> in
  magnitude the one text that reads as the decimal numeral of \<open>n\<close>; for any other value
  the text the template literal prints for it. With the base origin \<^verbatim>\<open>https://x/api\<close>,
  \<^verbatim>\<open>getRecent(6)\<close> fetches \<^verbatim>\<open>https://x/api/episodes/recent?limit=6\<close>.
\<close>

theorem getRecent_single_GET:
  assumes "representable limit"
  shows "(\<exists>shown config evs.
            new_events st (snd (getRecent net api limit st)) =
              Fetch (baseURL api @ ''/episodes/recent?limit='' @ shown) config # evs \<and>
            r_method config = Val ''GET'' \<and> r_body config = Absent \<and> fetch_events evs = [] \<and>
            (case limit of
               Undefined \<Rightarrow> shown = ''6''
             | Num n \<Rightarrow> read_number shown = Some n \<and> (\<forall>t. read_number t = Some n \<longrightarrow> t = shown)
             | Other s \<Rightarrow> shown = s)) \<and>
         fetches (snd (getRecent net api limit st)) = Suc (fetches st) \<and>
         (\<exists>config evs.
            new_events st (snd (getRecent net (api\<lparr>baseURL := ''https://x/api''\<rparr>) (Num 6) st)) =
              Fetch ''https://x/api/episodes/recent?limit=6'' config # evs \<and>
            r_method config = Val ''GET'' \<and> r_body config = Absent \<and> fetch_events evs = [])"
proof (intro conjI)
  define shown where "shown = template_text (case limit of Undefined \<Rightarrow> Num 6 | v \<Rightarrow> v)"
  have pin: "case limit of
               Undefined \<Rightarrow> shown = ''6''
             | Num n \<Rightarrow> read_number shown = Some n \<and> (\<forall>t. read_number t = Some n \<longrightarrow> t = shown)
             | Other s \<Rightarrow> shown = s"
  proof (cases limit)
    case Undefined
    then show ?thesis by (simp add: shown_def decimal_6)
  next
    case (Num n)
    have "\<forall>t. read_number t = Some n \<longrightarrow> t = number_to_string n"
      using number_to_string_of_read by blast
    with Num show ?thesis by (simp add: shown_def read_number_to_string)
  next
    case (Other s)
    then show ?thesis by (simp add: shown_def)
  qed
  from request_get_no_options [of st net api "''/episodes/recent?limit='' @ shown"] obtain config evs where
    "new_events st (snd (getRecent net api limit st)) =
       Fetch (baseURL api @ ''/episodes/recent?limit='' @ shown) config # evs"
    "r_method config = Val ''GET''" "r_body config = Absent" "fetch_events evs = []"
    unfolding getRecent_def shown_def by auto
  with pin show "\<exists>shown config evs.
            new_events st (snd (getRecent net api limit st)) =
              Fetch (baseURL api @ ''/episodes/recent?limit='' @ shown) config # evs \<and>
            r_method config = Val ''GET'' \<and> r_body config = Absent \<and> fetch_events evs = [] \<and>
            (case limit of
               Undefined \<Rightarrow> shown = ''6''
             | Num n \<Rightarrow> read_number shown = Some n \<and> (\<forall>t. read_number t = Some n \<longrightarrow> t = shown)
             | Other s \<Rightarrow> shown = s)"
    by blast
  show "fetches (snd (getRecent net api limit st)) = Suc (fetches st)"
    by (simp add: getRecent_def request_facts issues_fetch_no_options)
  show "\<exists>config evs.
      new_events st (snd (getRecent net (api\<lparr>baseURL := ''https://x/api''\<rparr>) (Num 6) st)) =
        Fetch ''https://x/api/episodes/recent?limit=6'' config # evs \<and>
      r_method config = Val ''GET'' \<and> r_body config = Absent \<and> fetch_events evs = []"
    using request_get_no_options [of st net "api\<lparr>baseURL := ''https://x/api''\<rparr>" "''/episodes/recent?limit='' @ number_to_string 6"]
    unfolding getRecent_def by (auto simp: decimal_6)
qed

theorem getRecent_single_GET_witness:
  "fetch_events (new_events fresh (snd (getRecent (scripted [] (respond 200 (JArr []))) (RawfinAPI\<lparr>baseURL := ''https://x/api''\<rparr>) (Num 6) fresh))) =
     [Fetch ''https://x/api/episodes/recent?limit=6''
        \<lparr>r_method = Val ''GET'', r_headers = Val [(''Content-Type'', ''application/json'')], r_body = Absent\<rparr>] \<and>
   fetches (snd (getRecent (scripted [] (respond 200 (JArr []))) (RawfinAPI\<lparr>baseURL := ''https://x/api''\<rparr>) (Num 6) fresh)) = 1 \<and>
   fetch_events (new_events fresh (snd (getRecent (scripted [] (respond 200 (JArr []))) RawfinAPI (Num 10) fresh))) =
     [Fetch ''https://rawfin.tv/api/episodes/recent?limit=10''
        \<lparr>r_method = Val ''GET'', r_headers = Val [(''Content-Type'', ''application/json'')], r_body = Absent\<rparr>] \<and>
   fetch_events (new_events fresh (snd (getRecent (scripted [] (respond 200 (JArr []))) RawfinAPI Undefined fresh))) =
     [Fetch ''https://rawfin.tv/api/episodes/recent?limit=6''
        \<lparr>r_method = Val ''GET'', r_headers = Val [(''Content-Type'', ''application/json'')], r_body = Absent\<rparr>] \<and>
   fetch_events (new_events fresh (snd (getRecent (scripted [] (respond 200 (JArr []))) RawfinAPI (Other ''2.5'') fresh))) =
     [Fetch ''https://rawfin.tv/api/episodes/recent?limit=2.5''
        \<lparr>r_method = Val ''GET'', r_headers = Val [(''Content-Type'', ''application/json'')], r_body = Absent\<rparr>] \<and>
   number_to_string (2 ^ 53) = ''9007199254740992'' \<and> number_to_string (- 42) = ''-42''"
proof -
  have d: "number_to_string 10 = ''10''" "number_to_string (2 ^ 53) = ''9007199254740992''"
    "number_to_string (- 42) = ''-42''"
    by (simp_all add: number_to_string_def decimal.simps digit_def)
  have e: "fetch_events (new_events fresh (snd (getRecent (scripted [] (respond 200 (JArr []))) (RawfinAPI\<lparr>baseURL := ''https://x/api''\<rparr>) (Num 6) fresh))) =
     [Fetch ''https://x/api/episodes/recent?limit=6''
        \<lparr>r_method = Val ''GET'', r_headers = Val [(''Content-Type'', ''application/json'')], r_body = Absent\<rparr>]"
    "fetch_events (new_events fresh (snd (getRecent (scripted [] (respond 200 (JArr []))) RawfinAPI (Num 10) fresh))) =
     [Fetch ''https://rawfin.tv/api/episodes/recent?limit=10''
        \<lparr>r_method = Val ''GET'', r_headers = Val [(''Content-Type'', ''application/json'')], r_body = Absent\<rparr>]"
    "fetch_events (new_events fresh (snd (getRecent (scripted [] (respond 200 (JArr []))) RawfinAPI Undefined fresh))) =
     [Fetch ''https://rawfin.tv/api/episodes/recent?limit=6''
        \<lparr>r_method = Val ''GET'', r_headers = Val [(''Content-Type'', ''application/json'')], r_body = Absent\<rparr>]"
    "fetch_events (new_events fresh (snd (getRecent (scripted [] (respond 200 (JArr []))) RawfinAPI (Other ''2.5'') fresh))) =
     [Fetch ''https://rawfin.tv/api/episodes/recent?limit=2.5''
        \<lparr>r_method = Val ''GET'', r_headers = Val [(''Content-Type'', ''application/json'')], r_body = Absent\<rparr>]"
    by (simp_all add: getRecent_def decimal_6 d eval_defs)
  have r: "representable (Num 6)" by simp
  have "fetches fresh = 0" by (simp add: fresh_def)
  with getRecent_single_GET [where limit = "Num 6" and st = fresh and net = "scripted [] (respond 200 (JArr []))"
        and api = "RawfinAPI\<lparr>baseURL := ''https://x/api''\<rparr>", OF r]
  have "fetches (snd (getRecent (scripted [] (respond 200 (JArr []))) (RawfinAPI\<lparr>baseURL := ''https://x/api''\<rparr>) (Num 6) fresh)) = 1"
    by simp
  with e d show ?thesis by simp
qed

text \<open>
  C10, as the code has it. On a path that contains \<^verbatim>\<open>/auth/callback\<close>: when the query
  has a non-empty \<^verbatim>\<open>token\<close>, the token is stored and the profile is fetched with it
  (the request carries \<^verbatim>\<open>Authorization: Bearer <token>\<close>), the only page action that
  can follow is the navigation to \<^verbatim>\<open>/\<close>, and when the profile request succeeds that
  navigation happens and the token stays stored. When there is no \<^verbatim>\<open>token\<close> or an empty
  one and the query has a non-empty \<^verbatim>\<open>error\<close>, the error is logged, the notification is
  shown, the navigation to \<^verbatim>\<open>/\<close> is scheduled after 3000 ms, and nothing is stored or
  fetched.
\<close>

theorem oauth_callback_branches:
  assumes "str_includes pathname ''/auth/callback''"
    and "oauth_callback net api pathname params st = st'"
  shows "(truthy_str (params_get params ''token'') \<longrightarrow>
            (\<exists>config evs.
               new_events st st' = Fetch (baseURL api @ ''/auth/profile'') config # evs \<and>
               r_method config = Val ''GET'' \<and>
               header config ''Authorization'' = Some (''Bearer '' @ the (params_get params ''token'')) \<and>
               (\<forall>ev\<in>set evs. is_page_action ev \<longrightarrow> ev = Navigate ''/'') \<and>
               (\<forall>r d. net (fetches st) = Resolved r \<and> ok r \<and> json_body r = Inr d \<longrightarrow>
                  evs = [Navigate ''/''] \<and> auth_token st' = params_get params ''token''))) \<and>
         (\<not> truthy_str (params_get params ''token'') \<and> truthy_str (params_get params ''error'') \<longrightarrow>
            new_events st st' =
              [ConsoleErrorText ''Auth error:'' (the (params_get params ''error'')),
               Notify ''Authentication failed. Please try again.'' ''error'',
               NavigateAfter 3000 ''/''] \<and>
            auth_token st' = auth_token st \<and> user_data st' = user_data st \<and> fetches st' = fetches st)"
proof (rule conjI; rule impI)
  assume t: "truthy_str (params_get params ''token'')"
  define token where "token = params_get params ''token''"
  define st0 where "st0 = setAuthToken token st"
  define url where "url = baseURL api @ ''/auth/profile''"
  have s0: "auth_token st0 = token" "trace st0 = trace st" "fetches st0 = fetches st"
    using t by (simp_all add: st0_def token_def setAuthToken_facts)
  have tk: "truthy_str (getAuthToken st0)" "getAuthToken st0 = token"
    using t s0 by (simp_all add: getAuthToken_def token_def)
  obtain res st1 where r: "request net api ''/auth/profile'' no_options st0 = (res, st1)" by fastforce
  from request_trace [OF issues_fetch_no_options, of st0 net api "''/auth/profile''"] r obtain config evs1 where
    c: "add_auth (getAuthToken st0) (request_config no_options) = Inr config" and
    t1: "trace st1 = trace st @ Fetch url config # evs1" and
    e1: "\<forall>ev\<in>set evs1. \<not> is_page_action ev"
    by (auto simp: s0 url_def)
  have h: "header config ''Authorization'' = Some (''Bearer '' @ the token)" "r_method config = Val ''GET''"
    using header_add_auth [OF c] tk
    by (simp_all add: request_config_def no_options_def spread_prop_def)
  have a1: "auth_token st1 = token"
    using request_facts(1) [of net api "''/auth/profile''" no_options st0] r s0 by simp
  have st': "st' = (case getProfile net api st0 of (Inr data, s) \<Rightarrow> emit (Navigate ''/'') s | (Inl e, s) \<Rightarrow> s)"
    using assms t by (simp add: oauth_callback_def Let_def st0_def token_def)
  have "\<exists>evs. new_events st st' = Fetch url config # evs \<and>
               (\<forall>ev\<in>set evs. is_page_action ev \<longrightarrow> ev = Navigate ''/'') \<and>
               (\<forall>rsp d. net (fetches st) = Resolved rsp \<and> ok rsp \<and> json_body rsp = Inr d \<longrightarrow>
                  evs = [Navigate ''/''] \<and> auth_token st' = token)"
  proof (cases res)
    case (Inr data)
    then have g: "getProfile net api st0 = (Inr data, setUserData data st1)"
      by (simp add: getProfile_def r)
    have f: "st' = emit (Navigate ''/'') (setUserData data st1)" using st' g by simp
    have n: "new_events st st' = Fetch url config # (evs1 @ [Navigate ''/''])"
      by (simp add: f new_events_def emit_def setUserData_facts t1)
    have a: "auth_token st' = token" by (simp add: f emit_def setUserData_facts a1)
    have "evs1 = []" if "net (fetches st) = Resolved rsp" "ok rsp" "json_body rsp = Inr d" for rsp d
    proof -
      from request_ok [OF issues_fetch_no_options, of net st0 rsp d api "''/auth/profile''"] that r s0 t1
      show ?thesis by auto
    qed
    with n a page_action_navigate [OF e1] show ?thesis by auto
  next
    case (Inl e)
    then have g: "getProfile net api st0 = (Inl e, snd (logout net api st1))"
      by (simp add: getProfile_def r)
    have f: "st' = snd (logout net api st1)" using st' g by simp
    from logout_run [of net api st1] obtain c2 evs2 where
      t2: "trace (snd (logout net api st1)) = trace st1 @ Fetch (baseURL api @ ''/auth/logout'') c2 # evs2" and
      e2: "\<forall>ev\<in>set evs2. \<not> is_page_action ev" by blast
    have n: "new_events st st' = Fetch url config # (evs1 @ Fetch (baseURL api @ ''/auth/logout'') c2 # evs2)"
      by (simp add: f new_events_def t2 t1)
    have "\<forall>ev\<in>set (evs1 @ Fetch (baseURL api @ ''/auth/logout'') c2 # evs2). \<not> is_page_action ev"
      using e1 e2 by auto
    moreover have False if "net (fetches st) = Resolved rsp" "ok rsp" "json_body rsp = Inr d" for rsp d
    proof -
      from request_ok [OF issues_fetch_no_options, of net st0 rsp d api "''/auth/profile''"] that r s0 Inl
      show ?thesis by auto
    qed
    ultimately show ?thesis using n by blast
  qed
  then show "\<exists>config evs.
               new_events st st' = Fetch (baseURL api @ ''/auth/profile'') config # evs \<and>
               r_method config = Val ''GET'' \<and>
               header config ''Authorization'' = Some (''Bearer '' @ the (params_get params ''token'')) \<and>
               (\<forall>ev\<in>set evs. is_page_action ev \<longrightarrow> ev = Navigate ''/'') \<and>
               (\<forall>r d. net (fetches st) = Resolved r \<and> ok r \<and> json_body r = Inr d \<longrightarrow>
                  evs = [Navigate ''/''] \<and> auth_token st' = params_get params ''token'')"
    using h unfolding url_def token_def by blast
next
  assume e: "\<not> truthy_str (params_get params ''token'') \<and> truthy_str (params_get params ''error'')"
  then have st': "st' = emit (NavigateAfter 3000 ''/'')
                (emit (Notify ''Authentication failed. Please try again.'' ''error'')
                   (emit (ConsoleErrorText ''Auth error:'' (the (params_get params ''error''))) st))"
    using assms by (simp add: oauth_callback_def Let_def)
  show "new_events st st' =
              [ConsoleErrorText ''Auth error:'' (the (params_get params ''error'')),
               Notify ''Authentication failed. Please try again.'' ''error'',
               NavigateAfter 3000 ''/''] \<and>
            auth_token st' = auth_token st \<and> user_data st' = user_data st \<and> fetches st' = fetches st"
    by (simp add: st' emit_def new_events_def)
qed

theorem oauth_callback_branches_witness:
  "(\<exists>config. new_events fresh
       (oauth_callback (scripted [] (respond 200 (JObj [(''name'', JStr ''Ada'')]))) RawfinAPI ''/auth/callback''
          [(''token'', ''abc'')] fresh) =
       [Fetch ''https://rawfin.tv/api/auth/profile'' config, Navigate ''/'']) \<and>
   auth_token (oauth_callback (scripted [] (respond 200 (JObj [(''name'', JStr ''Ada'')]))) RawfinAPI ''/auth/callback''
          [(''token'', ''abc'')] fresh) = Some ''abc'' \<and>
   new_events fresh
       (oauth_callback (scripted [] (respond 200 (JObj []))) RawfinAPI ''/auth/callback''
          [(''error'', ''access_denied'')] fresh) =
     [ConsoleErrorText ''Auth error:'' ''access_denied'',
      Notify ''Authentication failed. Please try again.'' ''error'',
      NavigateAfter 3000 ''/'']"
proof -
  let ?net = "scripted [] (respond 200 (JObj [(''name'', JStr ''Ada'')]))"
  have p: "str_includes ''/auth/callback'' ''/auth/callback''" by simp
  have n: "?net (fetches fresh) = Resolved \<lparr>status = 200, json_body = Inr (JObj [(''name'', JStr ''Ada'')])\<rparr> \<and>
           ok \<lparr>status = 200, json_body = Inr (JObj [(''name'', JStr ''Ada'')])\<rparr> \<and>
           json_body \<lparr>status = 200, json_body = Inr (JObj [(''name'', JStr ''Ada'')])\<rparr> = Inr (JObj [(''name'', JStr ''Ada'')])"
    by (simp add: scripted_def respond_def ok_def)
  have b: "baseURL RawfinAPI @ ''/auth/profile'' = ''https://rawfin.tv/api/auth/profile''"
    by (simp add: RawfinAPI_def)
  from oauth_callback_branches [where net = ?net and api = RawfinAPI and params = "[(''token'', ''abc'')]" and st = fresh, OF p refl] n
  have "(\<exists>config. new_events fresh
       (oauth_callback ?net RawfinAPI ''/auth/callback'' [(''token'', ''abc'')] fresh) =
       [Fetch ''https://rawfin.tv/api/auth/profile'' config, Navigate ''/'']) \<and>
     auth_token (oauth_callback ?net RawfinAPI ''/auth/callback'' [(''token'', ''abc'')] fresh) = Some ''abc''"
    unfolding b by (auto simp: params_get_def)
  moreover from oauth_callback_branches [where net = "scripted [] (respond 200 (JObj []))" and api = RawfinAPI and params = "[(''error'', ''access_denied'')]" and st = fresh, OF p refl]
  have "new_events fresh
       (oauth_callback (scripted [] (respond 200 (JObj []))) RawfinAPI ''/auth/callback''
          [(''error'', ''access_denied'')] fresh) =
     [ConsoleErrorText ''Auth error:'' ''access_denied'',
      Notify ''Authentication failed. Please try again.'' ''error'',
      NavigateAfter 3000 ''/'']"
    by (simp add: params_get_def)
  ultimately show ?thesis by blast
qed

text \<open>
  The claim as stated, that a URL carrying a \<^verbatim>\<open>token\<close> parameter has its token stored and
  the profile fetched, fails on an empty one: at \<^verbatim>\<open>/auth/callback?token=\<close> the check
  stores nothing, fetches nothing and leaves the page as it is.
\<close>

theorem oauth_callback_empty_token_counterexample:
  "str_includes ''/auth/callback'' ''/auth/callback'' \<and>
   params_get [(''token'', [])] ''token'' = Some [] \<and>
   oauth_callback (scripted [] (respond 200 (JObj []))) RawfinAPI ''/auth/callback'' [(''token'', [])] fresh = fresh \<and>
   auth_token fresh = None \<and> trace fresh = []"
  by (simp add: oauth_callback_def params_get_def fresh_def)

end
